theory Spec2Isabelle
  imports Main
begin

section \<open>The global database and its cursor\<close>

text \<open>
  The upgrade step \<^verbatim>\<open>rotkehlchen/globaldb/upgrades/v7_v8.py\<close> talks to the global
  database through a write cursor. Values bound to the \<^verbatim>\<open>?\<close> placeholders of a
  statement are SQL values.
\<close>

datatype sql_value = SqlNull | SqlText string | SqlInteger int

text \<open>
  Modelled from the spec: the layout of the two tables the step touches (the schema is
  not part of the source file). \<^verbatim>\<open>evm_tokens\<close> is keyed by its \<^verbatim>\<open>identifier\<close>
  column ("an update keyed by an identifier column"); a row holds the nullable
  \<^verbatim>\<open>protocol\<close> column and every other column, kept opaque. \<^verbatim>\<open>general_cache\<close> has
  the columns \<^verbatim>\<open>(key, value, last_queried_ts)\<close>; a row is recorded under its
  \<^verbatim>\<open>(key, value)\<close> pair, which is what "insert if absent" tests. All remaining
  tables of the database are kept opaque as well.
\<close>

record 'c evm_tokens_row =
  protocol :: "string option"
  other_columns :: 'c

record ('c, 't) globaldb =
  evm_tokens :: "string \<rightharpoonup> 'c evm_tokens_row"
  general_cache :: "string \<times> string \<rightharpoonup> int"
  other_tables :: 't

text \<open>
  A Python call either returns or raises: \<open>Inl e\<close> is the exception \<open>e\<close> raised,
  \<open>Inr ()\<close> is a return of \<^verbatim>\<open>None\<close>. The state reached is returned in both cases,
  since a raise does not undo earlier mutations by itself.
\<close>

type_synonym ('e, 's) outcome = "('e + unit) \<times> 's"

text \<open>
  The cursor object handed to the step. Its \<^verbatim>\<open>executemany\<close> method takes the
  statement text and the sequence of parameter tuples and acts on the database; the
  step is written against this interface only, so it is modelled for every cursor.
\<close>

record ('db, 'e) DBCursor =
  executemany :: "string \<Rightarrow> sql_value list list \<Rightarrow> 'db \<Rightarrow> ('e, 'db) outcome"

record ('db, 'e) DBConnection =
  cursor :: "('db, 'e) DBCursor"

subsection \<open>A reference store\<close>

text \<open>
  Modelled from the spec: the store's \<^verbatim>\<open>executeMany\<close> (the database driver and the
  SQL engine are not in the source), for the two statements the step sends: "an update
  keyed by an identifier column" and "an insert or ignore into a generic
  key/value/timestamp cache table". The statement is run once per parameter tuple, in
  order, and stops at the first tuple that raises. Anything else is outside the model
  and raises.
\<close>

datatype store_error = ProgrammingError string | OperationalError string

fun update_protocol_null ::
  "sql_value list \<Rightarrow> ('c, 't) globaldb \<Rightarrow> (store_error, ('c, 't) globaldb) outcome"
where
  "update_protocol_null [SqlText ident] db =
     (Inr (),
      case evm_tokens db ident of
        None \<Rightarrow> db
      | Some row \<Rightarrow> db\<lparr>evm_tokens := (evm_tokens db)(ident \<mapsto> row\<lparr>protocol := None\<rparr>)\<rparr>)"
| "update_protocol_null _ db = (Inl (ProgrammingError ''bindings outside the model''), db)"

fun insert_or_ignore_general_cache ::
  "sql_value list \<Rightarrow> ('c, 't) globaldb \<Rightarrow> (store_error, ('c, 't) globaldb) outcome"
where
  "insert_or_ignore_general_cache [SqlText k, SqlText v, SqlInteger ts] db =
     (Inr (),
      case general_cache db (k, v) of
        None \<Rightarrow> db\<lparr>general_cache := (general_cache db)((k, v) \<mapsto> ts)\<rparr>
      | Some _ \<Rightarrow> db)"
| "insert_or_ignore_general_cache _ db =
     (Inl (ProgrammingError ''bindings outside the model''), db)"

definition sqlite_execute ::
  "string \<Rightarrow> sql_value list \<Rightarrow> ('c, 't) globaldb \<Rightarrow> (store_error, ('c, 't) globaldb) outcome"
where
  "sqlite_execute statement parameters db =
     (if statement = ''UPDATE evm_tokens SET protocol=NULL WHERE identifier=?''
      then update_protocol_null parameters db
      else if statement =
        ''INSERT OR IGNORE INTO general_cache(key, value, last_queried_ts) VALUES (?, ?, ?)''
      then insert_or_ignore_general_cache parameters db
      else (Inl (OperationalError ''statement outside the model''), db))"

fun sqlite_executemany ::
  "string \<Rightarrow> sql_value list list \<Rightarrow> ('c, 't) globaldb
     \<Rightarrow> (store_error, ('c, 't) globaldb) outcome"
where
  "sqlite_executemany statement [] db = (Inr (), db)"
| "sqlite_executemany statement (parameters # rest) db =
     (case sqlite_execute statement parameters db of
        (Inl e, db') \<Rightarrow> (Inl e, db')
      | (Inr _, db') \<Rightarrow> sqlite_executemany statement rest db')"

definition sqlite_cursor :: "(('c, 't) globaldb, store_error) DBCursor" where
  "sqlite_cursor = \<lparr>executemany = sqlite_executemany\<rparr>"

text \<open>
  A store fault: the cursor \<open>interrupted statement n e c\<close> behaves as \<open>c\<close>, except
  that on \<open>statement\<close> it runs only the first \<open>n\<close> parameter tuples and then raises
  \<open>e\<close> (a full disk, a lock timeout), leaving what it did so far in place.
\<close>

definition interrupted ::
  "string \<Rightarrow> nat \<Rightarrow> 'e \<Rightarrow> ('db, 'e) DBCursor \<Rightarrow> ('db, 'e) DBCursor"
where
  "interrupted statement n e c =
     \<lparr>executemany = (\<lambda>s ps db.
        if s = statement
        then (case executemany c s (take n ps) db of
                (Inl e', db') \<Rightarrow> (Inl e', db')
              | (Inr _, db') \<Rightarrow> (Inl e, db'))
        else executemany c s ps db)\<rparr>"

text \<open>
  What the two statements of the step do to their tables, as functions of the set of
  identifiers sent: used to state the step's effect.
\<close>

definition protocol_cleared ::
  "string set \<Rightarrow> (string \<rightharpoonup> 'c evm_tokens_row) \<Rightarrow> (string \<rightharpoonup> 'c evm_tokens_row)"
where
  "protocol_cleared ids tokens =
     (\<lambda>ident. if ident \<in> ids
               then map_option (\<lambda>row. row\<lparr>protocol := None\<rparr>) (tokens ident)
               else tokens ident)"

definition cache_marked ::
  "string \<Rightarrow> string set \<Rightarrow> int \<Rightarrow> (string \<times> string \<rightharpoonup> int) \<Rightarrow> (string \<times> string \<rightharpoonup> int)"
where
  "cache_marked k ids ts cache =
     (\<lambda>(k', v). if k' = k \<and> v \<in> ids \<and> cache (k', v) = None
                 then Some ts
                 else cache (k', v))"

subsection \<open>The world around the step\<close>

datatype log_record = Enter string | Exit string

text \<open>
  Besides the database the step reads the system clock and writes debug log records.
  \<open>clock w n\<close> is the reading the clock gives to the \<open>n\<close>-th call of
  \<^verbatim>\<open>ts_now\<close>, and \<open>ts_now_calls\<close> counts the calls made so far.
\<close>

record 'db world =
  database :: 'db
  clock :: "nat \<Rightarrow> int"
  ts_now_calls :: nat
  debug_log :: "log_record list"

text \<open>
  Modelled from the spec: \<^verbatim>\<open>rotkehlchen.utils.misc.ts_now\<close> (not in the source), the
  timestamp provider "now() -> integer seconds since epoch".
\<close>

definition ts_now :: "'db world \<Rightarrow> int \<times> 'db world" where
  "ts_now w = (clock w (ts_now_calls w), w\<lparr>ts_now_calls := Suc (ts_now_calls w)\<rparr>)"

definition call_executemany ::
  "('db, 'e) DBCursor \<Rightarrow> string \<Rightarrow> sql_value list list \<Rightarrow> 'db world \<Rightarrow> ('e, 'db world) outcome"
where
  "call_executemany write_cursor statement seq_of_parameters w =
     (case executemany write_cursor statement seq_of_parameters (database w) of
        (r, db') \<Rightarrow> (r, w\<lparr>database := db'\<rparr>))"

text \<open>
  Modelled from the spec: the decorator \<^verbatim>\<open>rotkehlchen.logging.enter_exit_debug_log\<close>
  (not in the source), "wraps step invocation for observability only": a debug record
  on entry, the call itself, a debug record on exit. An exception of the wrapped
  function passes through as it is.
\<close>

definition enter_exit_debug_log ::
  "string \<Rightarrow> ('a \<Rightarrow> 'db world \<Rightarrow> ('e, 'db world) outcome) \<Rightarrow> 'a \<Rightarrow> 'db world \<Rightarrow> ('e, 'db world) outcome"
where
  "enter_exit_debug_log name func arg w =
     (case func arg (w\<lparr>debug_log := debug_log w @ [Enter name]\<rparr>) of
        (Inl e, w') \<Rightarrow> (Inl e, w')
      | (Inr result, w') \<Rightarrow> (Inr result, w'\<lparr>debug_log := debug_log w' @ [Exit name]\<rparr>))"

text \<open>
  Modelled from the spec: the context manager \<^verbatim>\<open>DBConnection.write_ctx\<close> of
  \<^verbatim>\<open>rotkehlchen.db.drivers.gevent\<close> (not in the source). It opens a transaction and
  yields a write cursor; when the body returns the transaction is committed, when the
  body raises "roll back the transaction" and the exception goes on to the caller.
\<close>

definition write_ctx ::
  "('db, 'e) DBConnection \<Rightarrow> (('db, 'e) DBCursor \<Rightarrow> 'db world \<Rightarrow> ('e, 'db world) outcome)
     \<Rightarrow> 'db world \<Rightarrow> ('e, 'db world) outcome"
where
  "write_ctx connection body w =
     (case body (cursor connection) w of
        (Inl e, w') \<Rightarrow> (Inl e, w'\<lparr>database := database w\<rparr>)
      | (Inr result, w') \<Rightarrow> (Inr result, w'))"

section \<open>The upgrade step\<close>

definition ASSETS_TO_WHITELIST :: "string list" where
  "ASSETS_TO_WHITELIST =
    [
     ''eip155:1/erc20:0x2ecB13A8c458c379c4d9a7259e202De03c8F3D19'',
     ''eip155:1/erc20:0xA0b73E1Ff0B80914AB6fe0444E65848C4C34450b'',
     ''eip155:1/erc20:0xB70835D7822eBB9426B56543E391846C107bd32C'',
     ''eip155:1/erc20:0x9C78EE466D6Cb57A4d01Fd887D2b5dFb2D46288f'',
     ''eip155:1/erc20:0xB63B606Ac810a52cCa15e44bB630fd42D8d1d83d'',
     ''eip155:1/erc20:0x905E337c6c8645263D3521205Aa37bf4d034e745'',
     ''eip155:1/erc20:0x6863bE0e7CF7ce860A574760e9020D519a8bDC47'',
     ''eip155:1/erc20:0x9B02dD390a603Add5c07f9fd9175b7DABE8D63B7'',
     ''eip155:1/erc20:0xD6Ea40597Be05c201845c0bFd2e96A60bACde267'',
     ''eip155:1/erc20:0xf2db9a7c0ACd427A680D640F02d90f6186E71725'',
     ''eip155:1/erc20:0x50f09629d0afDF40398a3F317cc676cA9132055c'',
     ''eip155:1/erc20:0xd3E4Ba569045546D09CF021ECC5dFe42b1d7f6E4'',
     ''eip155:137/erc20:0xd7c8469c7eC40f853dA5f651DE81b45aeD47e5aB'',
     ''eip155:43114/erc20:0xbd3936eC8D83A5D4e73ecA625eCFa006da8C8F52'',
     ''eip155:56/erc20:0xCB6409696c58aA777317dbdfaa8bab4AC8e39Eea'',
     ''eip155:56/erc20:0x78A18Db278F9c7c9657F61dA519e6Ef43794DD5D'',
     ''eip155:56/erc20:0x39d4549908e7Adcee9b439429294eEb4c65c2C9e'',
     ''eip155:56/erc20:0x431e0cD023a32532BF3969CddFc002c00E98429d'',
     ''eip155:56/erc20:0x959229D94c9060552daea25AC17193bcA65D7884'',
     ''eip155:56/erc20:0x686318000d982bc8dCC1cdCF8fFd22322F0960Ed'',
     ''eip155:56/erc20:0x9CD9C5a44CB8fab39b2Ee3556F5c439e65E4fDdD'',
     ''eip155:56/erc20:0xeCEB87cF00DCBf2D4E2880223743Ff087a995aD9'',
     ''eip155:56/erc20:0x368ce786Ea190f32439074e8d22e12ecb718B44c'',
     ''eip155:56/erc20:0x0F5d8CD195a4539bcf2eC6118C6dA50287c6d5f5'',
     ''eip155:56/erc20:0x52fe7b439753092f584917e3EFEa86A1cFD210f9'',
     ''eip155:56/erc20:0x3a06212763CAF64bf101DaA4b0cEbb0cD393fA1a'',
     ''eip155:56/erc20:0x6a6Ccf15B38DA4b5B0eF4C8fe9FefCB472A893F9'',
     ''eip155:56/erc20:0xBd2949F67DcdC549c6Ebe98696449Fa79D988A9F'',
     ''eip155:56/erc20:0x2235e79086dd23135119366da45851c741874e5B'',
     ''eip155:1/erc20:0x4185cf99745B2a20727B37EE798193DD4a56cDfa'',
     ''eip155:1/erc20:0x1c899dED01954d0959E034b62a728e7fEbE593b0'',
     ''eip155:1/erc20:0xc56c2b7e71B54d38Aab6d52E94a04Cbfa8F604fA'',
     ''eip155:1/erc20:0x96Ea6AF74Af09522fCB4c28C269C26F59a31ced6'',
     ''eip155:1/erc20:0x4f018C06810Ea979F0E8a5D73CB8aa977Ba17aBA'',
     ''eip155:1/erc20:0xc29259ea3f13778B8985014fB4b1b8e7DC5d5C94'',
     ''eip155:1/erc20:0x1974e843Fcf3627f8999544F3842bF58BB921ca2'',
     ''eip155:1/erc20:0x5b1FDc01f028C2347ab5fddB4D1effBf82a411d3'',
     ''eip155:1/erc20:0x6BC08509B36A98E829dFfAD49Fde5e412645d0a3'',
     ''eip155:1/erc20:0xA49d7499271aE71cd8aB9Ac515e6694C755d400c'',
     ''eip155:10/erc20:0xb396b31599333739A97951b74652c117BE86eE1D'',
     ''eip155:1/erc20:0xaA247c0D81B83812e1ABf8bAB078E4540D87e3fB''
    ]"

text \<open>The body of \<^verbatim>\<open>fix_detected_spam_tokens\<close>, below its decorator.\<close>

definition fix_detected_spam_tokens_body ::
  "('db, 'e) DBCursor \<Rightarrow> 'db world \<Rightarrow> ('e, 'db world) outcome"
where
  "fix_detected_spam_tokens_body write_cursor w =
     (case call_executemany write_cursor
             ''UPDATE evm_tokens SET protocol=NULL WHERE identifier=?''
             (map (\<lambda>asset_id. [SqlText asset_id]) ASSETS_TO_WHITELIST) w of
        (Inl e, w1) \<Rightarrow> (Inl e, w1)
      | (Inr _, w1) \<Rightarrow>
          (case ts_now w1 of
             (current_ts, w2) \<Rightarrow>
               call_executemany write_cursor
                 ''INSERT OR IGNORE INTO general_cache(key, value, last_queried_ts) VALUES (?, ?, ?)''
                 (map (\<lambda>asset_id.
                         [SqlText ''SPAM_ASSET_FALSE_POSITIVE'', SqlText asset_id,
                          SqlInteger current_ts])
                    ASSETS_TO_WHITELIST)
                 w2))"

definition fix_detected_spam_tokens ::
  "('db, 'e) DBCursor \<Rightarrow> 'db world \<Rightarrow> ('e, 'db world) outcome"
where
  "fix_detected_spam_tokens =
     enter_exit_debug_log ''fix_detected_spam_tokens'' fix_detected_spam_tokens_body"

text \<open>The body of \<^verbatim>\<open>migrate_to_v8\<close>, below its decorator.\<close>

definition migrate_to_v8_body ::
  "('db, 'e) DBConnection \<Rightarrow> 'db world \<Rightarrow> ('e, 'db world) outcome"
where
  "migrate_to_v8_body connection w =
     write_ctx connection (\<lambda>write_cursor. fix_detected_spam_tokens write_cursor) w"

definition migrate_to_v8 ::
  "('db, 'e) DBConnection \<Rightarrow> 'db world \<Rightarrow> ('e, 'db world) outcome"
where
  "migrate_to_v8 = enter_exit_debug_log ''globaldb v7->v8 upgrade'' migrate_to_v8_body"

section \<open>Example stores\<close>

text \<open>
  A small database at schema version 7: two listed tokens (one flagged as spam, one
  carrying another protocol), one token that is not on the list, and one cache marker
  that an earlier run left behind.
\<close>

definition example_db :: "(int, string list) globaldb" where
  "example_db =
     \<lparr>evm_tokens =
        [''eip155:1/erc20:0x2ecB13A8c458c379c4d9a7259e202De03c8F3D19'' \<mapsto>
           \<lparr>protocol = Some ''spam'', other_columns = 18\<rparr>,
         ''eip155:1/erc20:0xD6Ea40597Be05c201845c0bFd2e96A60bACde267'' \<mapsto>
           \<lparr>protocol = Some ''yearn_vaults_v2'', other_columns = 18\<rparr>,
         ''eip155:1/erc20:0xdAC17F958D2ee523a2206206994597C13D831ec7'' \<mapsto>
           \<lparr>protocol = Some ''spam'', other_columns = 6\<rparr>],
      general_cache =
        [(''SPAM_ASSET_FALSE_POSITIVE'',
          ''eip155:1/erc20:0xA0b73E1Ff0B80914AB6fe0444E65848C4C34450b'') \<mapsto> 1700000000],
      other_tables = [''assets'', ''settings'']\<rparr>"

definition example_world :: "(int, string list) globaldb world" where
  "example_world =
     \<lparr>database = example_db, clock = (\<lambda>n. 1718000000 + int n), ts_now_calls = 0,
      debug_log = []\<rparr>"

section \<open>The reference store on the step's statements\<close>

lemma protocol_cleared_step:
  "protocol_cleared (set ids)
     (case t a of None \<Rightarrow> t | Some row \<Rightarrow> t(a \<mapsto> row\<lparr>protocol := None\<rparr>))
   = protocol_cleared (insert a (set ids)) t"
  by (auto simp: protocol_cleared_def fun_eq_iff split: option.splits)

lemma sqlite_update_all:
  "sqlite_executemany ''UPDATE evm_tokens SET protocol=NULL WHERE identifier=?''
     (map (\<lambda>asset_id. [SqlText asset_id]) ids) db
   = (Inr (), db\<lparr>evm_tokens := protocol_cleared (set ids) (evm_tokens db)\<rparr>)"
proof (induction ids arbitrary: db)
  case Nil
  show ?case by (simp add: protocol_cleared_def)
next
  case (Cons a ids)
  show ?case
    by (cases "evm_tokens db a")
       (simp_all add: sqlite_execute_def Cons.IH protocol_cleared_step [of ids "evm_tokens db" a, symmetric])
qed

lemma cache_marked_step:
  "cache_marked k (set ids) ts
     (case c (k, a) of None \<Rightarrow> c((k, a) \<mapsto> ts) | Some x \<Rightarrow> c)
   = cache_marked k (insert a (set ids)) ts c"
  by (auto simp: cache_marked_def fun_eq_iff split: option.splits)

lemma sqlite_insert_all:
  "sqlite_executemany
     ''INSERT OR IGNORE INTO general_cache(key, value, last_queried_ts) VALUES (?, ?, ?)''
     (map (\<lambda>asset_id. [SqlText k, SqlText asset_id, SqlInteger ts]) ids) db
   = (Inr (), db\<lparr>general_cache := cache_marked k (set ids) ts (general_cache db)\<rparr>)"
proof (induction ids arbitrary: db)
  case Nil
  show ?case by (simp add: cache_marked_def)
next
  case (Cons a ids)
  show ?case
    by (cases "general_cache db (k, a)")
       (simp_all add: sqlite_execute_def Cons.IH cache_marked_step [of k ids ts "general_cache db" a, symmetric])
qed

section \<open>The step on any cursor\<close>

lemma fix_detected_spam_tokens_body_run:
  "fix_detected_spam_tokens_body c w =
     (case executemany c ''UPDATE evm_tokens SET protocol=NULL WHERE identifier=?''
             (map (\<lambda>asset_id. [SqlText asset_id]) ASSETS_TO_WHITELIST) (database w) of
        (Inl e, db1) \<Rightarrow> (Inl e, w\<lparr>database := db1\<rparr>)
      | (Inr u, db1) \<Rightarrow>
          (case executemany c
              ''INSERT OR IGNORE INTO general_cache(key, value, last_queried_ts) VALUES (?, ?, ?)''
              (map (\<lambda>asset_id.
                      [SqlText ''SPAM_ASSET_FALSE_POSITIVE'', SqlText asset_id,
                       SqlInteger (clock w (ts_now_calls w))])
                 ASSETS_TO_WHITELIST) db1 of
             (r2, db2) \<Rightarrow>
               (r2, w\<lparr>database := db2, ts_now_calls := Suc (ts_now_calls w)\<rparr>)))"
  by (simp add: fix_detected_spam_tokens_body_def call_executemany_def ts_now_def
           split: prod.splits sum.splits)

lemma fix_detected_spam_tokens_body_log:
  "fix_detected_spam_tokens_body c (w\<lparr>debug_log := l\<rparr>) =
     (fst (fix_detected_spam_tokens_body c w),
      (snd (fix_detected_spam_tokens_body c w))\<lparr>debug_log := l\<rparr>)"
  by (simp add: fix_detected_spam_tokens_body_run split: prod.splits sum.splits)

lemma fix_detected_spam_tokens_body_keeps_log:
  "debug_log (snd (fix_detected_spam_tokens_body c w)) = debug_log w"
  by (simp add: fix_detected_spam_tokens_body_run split: prod.splits sum.splits)

lemma fix_detected_spam_tokens_run:
  "fix_detected_spam_tokens c w =
     (case fix_detected_spam_tokens_body c w of
        (Inl e, w') \<Rightarrow>
          (Inl e, w'\<lparr>debug_log := debug_log w @ [Enter ''fix_detected_spam_tokens'']\<rparr>)
      | (Inr u, w') \<Rightarrow>
          (Inr u, w'\<lparr>debug_log := debug_log w @
             [Enter ''fix_detected_spam_tokens'', Exit ''fix_detected_spam_tokens'']\<rparr>))"
  by (simp add: fix_detected_spam_tokens_def enter_exit_debug_log_def
        fix_detected_spam_tokens_body_log split: prod.splits sum.splits)

lemma fix_detected_spam_tokens_body_sqlite:
  "fix_detected_spam_tokens_body sqlite_cursor w =
     (Inr (),
      w\<lparr>database := (database w)
           \<lparr>evm_tokens := protocol_cleared (set ASSETS_TO_WHITELIST) (evm_tokens (database w)),
            general_cache := cache_marked ''SPAM_ASSET_FALSE_POSITIVE'' (set ASSETS_TO_WHITELIST)
                (clock w (ts_now_calls w)) (general_cache (database w))\<rparr>,
         ts_now_calls := Suc (ts_now_calls w)\<rparr>)"
  by (simp add: fix_detected_spam_tokens_body_run sqlite_cursor_def sqlite_update_all
        sqlite_insert_all)

lemma fix_detected_spam_tokens_sqlite:
  "fix_detected_spam_tokens sqlite_cursor w =
     (Inr (),
      w\<lparr>database := (database w)
           \<lparr>evm_tokens := protocol_cleared (set ASSETS_TO_WHITELIST) (evm_tokens (database w)),
            general_cache := cache_marked ''SPAM_ASSET_FALSE_POSITIVE'' (set ASSETS_TO_WHITELIST)
                (clock w (ts_now_calls w)) (general_cache (database w))\<rparr>,
         ts_now_calls := Suc (ts_now_calls w),
         debug_log := debug_log w @
           [Enter ''fix_detected_spam_tokens'', Exit ''fix_detected_spam_tokens'']\<rparr>)"
  by (simp add: fix_detected_spam_tokens_run fix_detected_spam_tokens_body_sqlite)

section \<open>Facts about the example store\<close>

lemma listed_first: "''eip155:1/erc20:0x2ecB13A8c458c379c4d9a7259e202De03c8F3D19'' \<in> set ASSETS_TO_WHITELIST"
  unfolding ASSETS_TO_WHITELIST_def by simp

lemma listed_second: "''eip155:1/erc20:0xA0b73E1Ff0B80914AB6fe0444E65848C4C34450b'' \<in> set ASSETS_TO_WHITELIST"
  unfolding ASSETS_TO_WHITELIST_def by simp

lemma listed_yv: "''eip155:1/erc20:0xD6Ea40597Be05c201845c0bFd2e96A60bACde267'' \<in> set ASSETS_TO_WHITELIST"
  unfolding ASSETS_TO_WHITELIST_def by simp

lemma unlisted_usdt: "''eip155:1/erc20:0xdAC17F958D2ee523a2206206994597C13D831ec7'' \<notin> set ASSETS_TO_WHITELIST"
  unfolding ASSETS_TO_WHITELIST_def by simp

lemma listed_third: "''eip155:1/erc20:0xB70835D7822eBB9426B56543E391846C107bd32C'' \<in> set ASSETS_TO_WHITELIST"
  unfolding ASSETS_TO_WHITELIST_def by simp

section \<open>Repeating the two statements\<close>

lemma protocol_cleared_idem:
  "protocol_cleared ids (protocol_cleared ids t) = protocol_cleared ids t"
proof
  fix ident
  show "protocol_cleared ids (protocol_cleared ids t) ident = protocol_cleared ids t ident"
    by (cases "t ident") (simp_all add: protocol_cleared_def)
qed

lemma cache_marked_idem:
  "cache_marked k ids ts' (cache_marked k ids ts c) = cache_marked k ids ts c"
  by (auto simp: cache_marked_def fun_eq_iff)

lemma dom_cache_marked:
  "dom (cache_marked k ids ts c) = dom c \<union> {k} \<times> ids"
  by (auto simp: cache_marked_def dom_def split: if_splits)

lemma card_changed_rows:
  assumes "A \<subseteq> set xs"
  shows "card A \<le> length xs"
proof -
  have "card A \<le> card (set xs)"
    using assms by (simp add: card_mono)
  also have "\<dots> \<le> length xs"
    by (rule card_length)
  finally show ?thesis .
qed

lemma card_new_markers:
  assumes "A \<subseteq> {k} \<times> set xs"
  shows "card A \<le> length xs"
proof -
  have "card A \<le> card ({k} \<times> set xs)"
    by (rule card_mono) (use assms in simp_all)
  also have "\<dots> = card (set xs)"
    by (simp add: card_cartesian_product_singleton)
  also have "\<dots> \<le> length xs"
    by (rule card_length)
  finally show ?thesis .
qed

section \<open>The decorator and the transaction\<close>

lemma fix_detected_spam_tokens_fst_log:
  "fst (fix_detected_spam_tokens c (w\<lparr>debug_log := l\<rparr>)) = fst (fix_detected_spam_tokens c w)"
  by (simp add: fix_detected_spam_tokens_run fix_detected_spam_tokens_body_log
        split: prod.splits sum.splits)

lemma fix_detected_spam_tokens_snd_log:
  "(snd (fix_detected_spam_tokens c (w\<lparr>debug_log := l\<rparr>)))\<lparr>debug_log := l'\<rparr>
     = (snd (fix_detected_spam_tokens c w))\<lparr>debug_log := l'\<rparr>"
  by (simp add: fix_detected_spam_tokens_run fix_detected_spam_tokens_body_log
        split: prod.splits sum.splits)

lemma fix_detected_spam_tokens_database_log:
  "database (snd (fix_detected_spam_tokens c (w\<lparr>debug_log := l\<rparr>)))
     = database (snd (fix_detected_spam_tokens c w))"
  by (simp add: fix_detected_spam_tokens_run fix_detected_spam_tokens_body_log
        split: prod.splits sum.splits)

lemma world_upto_log:
  "w2\<lparr>debug_log := l\<rparr> = w1\<lparr>debug_log := l\<rparr> \<longleftrightarrow>
     database w2 = database w1 \<and> clock w2 = clock w1 \<and> ts_now_calls w2 = ts_now_calls w1"
  for w1 w2 :: "'db world"
  by (cases w1, cases w2) simp

lemma enter_exit_debug_log_fst:
  "fst (enter_exit_debug_log name func arg w)
     = fst (func arg (w\<lparr>debug_log := debug_log w @ [Enter name]\<rparr>))"
  by (simp add: enter_exit_debug_log_def split: prod.splits sum.splits)

lemma enter_exit_debug_log_snd:
  "(snd (enter_exit_debug_log name func arg w))\<lparr>debug_log := l\<rparr>
     = (snd (func arg (w\<lparr>debug_log := debug_log w @ [Enter name]\<rparr>)))\<lparr>debug_log := l\<rparr>"
  by (simp add: enter_exit_debug_log_def split: prod.splits sum.splits)

lemma migrate_to_v8_body_run:
  "migrate_to_v8_body connection w =
     (case fix_detected_spam_tokens (cursor connection) w of
        (Inl e, w') \<Rightarrow> (Inl e, w'\<lparr>database := database w\<rparr>)
      | (Inr u, w') \<Rightarrow> (Inr u, w'))"
  by (simp add: migrate_to_v8_body_def write_ctx_def)

lemma migrate_to_v8_body_fst:
  "fst (migrate_to_v8_body connection w) = fst (fix_detected_spam_tokens (cursor connection) w)"
  by (simp add: migrate_to_v8_body_run split: prod.splits sum.splits)

lemma migrate_to_v8_body_database:
  "database (snd (migrate_to_v8_body connection w)) =
     (case fst (fix_detected_spam_tokens (cursor connection) w) of
        Inl e \<Rightarrow> database w
      | Inr u \<Rightarrow> database (snd (fix_detected_spam_tokens (cursor connection) w)))"
  by (simp add: migrate_to_v8_body_run split: prod.splits sum.splits)

lemma migrate_to_v8_body_fst_log:
  "fst (migrate_to_v8_body connection (w\<lparr>debug_log := l\<rparr>)) = fst (migrate_to_v8_body connection w)"
  by (simp add: migrate_to_v8_body_fst fix_detected_spam_tokens_fst_log)

lemma migrate_to_v8_body_snd_log:
  "(snd (migrate_to_v8_body connection (w\<lparr>debug_log := l\<rparr>)))\<lparr>debug_log := l'\<rparr>
     = (snd (migrate_to_v8_body connection w))\<lparr>debug_log := l'\<rparr>"
proof -
  obtain r w1 where a: "fix_detected_spam_tokens (cursor connection) w = (r, w1)"
    by (cases "fix_detected_spam_tokens (cursor connection) w")
  obtain r' w2 where b:
    "fix_detected_spam_tokens (cursor connection) (w\<lparr>debug_log := l\<rparr>) = (r', w2)"
    by (cases "fix_detected_spam_tokens (cursor connection) (w\<lparr>debug_log := l\<rparr>)")
  have r: "r' = r"
    using fix_detected_spam_tokens_fst_log [where c = "cursor connection" and w = w and l = l] a b
    by simp
  have s: "w2\<lparr>debug_log := l'\<rparr> = w1\<lparr>debug_log := l'\<rparr>"
    using fix_detected_spam_tokens_snd_log
      [where c = "cursor connection" and w = w and l = l and l' = l'] a b
    by simp
  show ?thesis
  proof (cases r)
    case (Inl e)
    with s show ?thesis
      by (simp add: migrate_to_v8_body_run a b r world_upto_log)
  next
    case (Inr u)
    with s show ?thesis
      by (simp add: migrate_to_v8_body_run a b r world_upto_log)
  qed
qed

lemma migrate_to_v8_fst:
  "fst (migrate_to_v8 connection w) = fst (fix_detected_spam_tokens (cursor connection) w)"
  by (simp add: migrate_to_v8_def enter_exit_debug_log_fst migrate_to_v8_body_fst
        fix_detected_spam_tokens_fst_log)

lemma migrate_to_v8_snd:
  "(snd (migrate_to_v8 connection w))\<lparr>debug_log := l\<rparr>
     = (snd (migrate_to_v8_body connection w))\<lparr>debug_log := l\<rparr>"
  by (simp add: migrate_to_v8_def enter_exit_debug_log_snd migrate_to_v8_body_snd_log)

lemma migrate_to_v8_database:
  "database (snd (migrate_to_v8 connection w)) =
     (case fst (fix_detected_spam_tokens (cursor connection) w) of
        Inl e \<Rightarrow> database w
      | Inr u \<Rightarrow> database (snd (fix_detected_spam_tokens (cursor connection) w)))"
proof -
  have "database (snd (migrate_to_v8 connection w))
      = database ((snd (migrate_to_v8 connection w))\<lparr>debug_log := []\<rparr>)"
    by simp
  also have "\<dots> = database ((snd (migrate_to_v8_body connection w))\<lparr>debug_log := []\<rparr>)"
    by (simp only: migrate_to_v8_snd)
  also have "\<dots> = database (snd (migrate_to_v8_body connection w))"
    by simp
  finally show ?thesis
    by (simp add: migrate_to_v8_body_database)
qed

lemma fix_detected_spam_tokens_body_interrupted_insert:
  "fix_detected_spam_tokens_body
     (interrupted
        ''INSERT OR IGNORE INTO general_cache(key, value, last_queried_ts) VALUES (?, ?, ?)''
        n e sqlite_cursor) w =
     (Inl e,
      w\<lparr>database := (database w)
           \<lparr>evm_tokens := protocol_cleared (set ASSETS_TO_WHITELIST) (evm_tokens (database w)),
            general_cache := cache_marked ''SPAM_ASSET_FALSE_POSITIVE''
                (set (take n ASSETS_TO_WHITELIST))
                (clock w (ts_now_calls w)) (general_cache (database w))\<rparr>,
         ts_now_calls := Suc (ts_now_calls w)\<rparr>)"
  by (simp add: fix_detected_spam_tokens_body_run interrupted_def sqlite_cursor_def
        sqlite_update_all sqlite_insert_all take_map)

section \<open>The constant list\<close>

lemma ASSETS_TO_WHITELIST_distinct: "distinct ASSETS_TO_WHITELIST"
  unfolding ASSETS_TO_WHITELIST_def by simp

lemma ASSETS_TO_WHITELIST_length: "length ASSETS_TO_WHITELIST = 41"
  unfolding ASSETS_TO_WHITELIST_def by simp

text \<open>
  C8: \<^verbatim>\<open>ASSETS_TO_WHITELIST\<close> holds no identifier twice: the identifiers at any two
  different positions of the tuple are different strings. The tuple has 41 entries.
\<close>

theorem ASSETS_TO_WHITELIST_no_duplicates:
  "distinct ASSETS_TO_WHITELIST \<and>
   (\<forall>i j. i < length ASSETS_TO_WHITELIST \<and> j < length ASSETS_TO_WHITELIST \<and> i \<noteq> j
      \<longrightarrow> ASSETS_TO_WHITELIST ! i \<noteq> ASSETS_TO_WHITELIST ! j)"
  using ASSETS_TO_WHITELIST_distinct by (simp add: nth_eq_iff_index_eq)

theorem ASSETS_TO_WHITELIST_no_duplicates_witness:
  "(0::nat) < length ASSETS_TO_WHITELIST \<and> (40::nat) < length ASSETS_TO_WHITELIST \<and>
   ASSETS_TO_WHITELIST ! 0 \<noteq> ASSETS_TO_WHITELIST ! 40"
proof -
  have "(0::nat) < length ASSETS_TO_WHITELIST" "(40::nat) < length ASSETS_TO_WHITELIST"
    by (simp_all add: ASSETS_TO_WHITELIST_length)
  with ASSETS_TO_WHITELIST_no_duplicates show ?thesis
    by simp
qed

section \<open>The step on the reference store\<close>

text \<open>
  C1: on the reference store the step returns without raising from every initial
  state; every \<^verbatim>\<open>evm_tokens\<close> row whose identifier is on \<^verbatim>\<open>ASSETS_TO_WHITELIST\<close>
  ends with \<^verbatim>\<open>protocol\<close> NULL; for every listed identifier with no cache row
  \<^verbatim>\<open>('SPAM_ASSET_FALSE_POSITIVE', identifier)\<close> yet, such a row is there afterwards with
  \<^verbatim>\<open>last_queried_ts\<close> the reading \<^verbatim>\<open>ts_now\<close> gave; a row that was already there is
  ignored by the insert and keeps its timestamp.
\<close>

theorem fix_detected_spam_tokens_clears_and_marks:
  "let db = database w;
       db' = database (snd (fix_detected_spam_tokens sqlite_cursor w));
       current_ts = clock w (ts_now_calls w)
   in fst (fix_detected_spam_tokens sqlite_cursor w) = Inr () \<and>
      (\<forall>asset_id \<in> set ASSETS_TO_WHITELIST.
         (\<forall>row. evm_tokens db asset_id = Some row \<longrightarrow>
                evm_tokens db' asset_id = Some (row\<lparr>protocol := None\<rparr>)) \<and>
         (general_cache db (''SPAM_ASSET_FALSE_POSITIVE'', asset_id) = None \<longrightarrow>
            general_cache db' (''SPAM_ASSET_FALSE_POSITIVE'', asset_id) = Some current_ts) \<and>
         (\<forall>ts. general_cache db (''SPAM_ASSET_FALSE_POSITIVE'', asset_id) = Some ts \<longrightarrow>
            general_cache db' (''SPAM_ASSET_FALSE_POSITIVE'', asset_id) = Some ts))"
  by (simp add: fix_detected_spam_tokens_sqlite protocol_cleared_def cache_marked_def)

theorem fix_detected_spam_tokens_clears_and_marks_witness:
  "evm_tokens (database (snd (fix_detected_spam_tokens sqlite_cursor example_world)))
     ''eip155:1/erc20:0x2ecB13A8c458c379c4d9a7259e202De03c8F3D19''
     = Some \<lparr>protocol = None, other_columns = 18\<rparr> \<and>
   general_cache (database (snd (fix_detected_spam_tokens sqlite_cursor example_world)))
     (''SPAM_ASSET_FALSE_POSITIVE'', ''eip155:1/erc20:0x2ecB13A8c458c379c4d9a7259e202De03c8F3D19'')
     = Some 1718000000 \<and>
   general_cache (database (snd (fix_detected_spam_tokens sqlite_cursor example_world)))
     (''SPAM_ASSET_FALSE_POSITIVE'', ''eip155:1/erc20:0xA0b73E1Ff0B80914AB6fe0444E65848C4C34450b'')
     = Some 1700000000"
proof -
  have pre1: "evm_tokens (database example_world)
      ''eip155:1/erc20:0x2ecB13A8c458c379c4d9a7259e202De03c8F3D19''
      = Some \<lparr>protocol = Some ''spam'', other_columns = 18\<rparr>"
    by (simp add: example_world_def example_db_def)
  have pre2: "general_cache (database example_world)
      (''SPAM_ASSET_FALSE_POSITIVE'', ''eip155:1/erc20:0x2ecB13A8c458c379c4d9a7259e202De03c8F3D19'')
      = None"
    by (simp add: example_world_def example_db_def)
  have pre3: "general_cache (database example_world)
      (''SPAM_ASSET_FALSE_POSITIVE'', ''eip155:1/erc20:0xA0b73E1Ff0B80914AB6fe0444E65848C4C34450b'')
      = Some 1700000000"
    by (simp add: example_world_def example_db_def)
  have now: "clock example_world (ts_now_calls example_world) = 1718000000"
    by (simp add: example_world_def)
  from fix_detected_spam_tokens_clears_and_marks [of example_world]
    listed_first listed_second pre1 pre2 pre3 now
  show ?thesis
    by (simp add: Let_def)
qed

text \<open>
  C2: running the step against a store that already holds some or all of the cache
  rows raises nothing, keeps every cache row that was there (value and timestamp) and
  adds exactly the missing \<^verbatim>\<open>('SPAM_ASSET_FALSE_POSITIVE', identifier)\<close> rows; hence a
  second run right after the first leaves the database as the first run left it.
\<close>

theorem fix_detected_spam_tokens_rerun:
  "let db = database w;
       w1 = snd (fix_detected_spam_tokens sqlite_cursor w);
       w2 = snd (fix_detected_spam_tokens sqlite_cursor w1)
   in fst (fix_detected_spam_tokens sqlite_cursor w) = Inr () \<and>
      fst (fix_detected_spam_tokens sqlite_cursor w1) = Inr () \<and>
      (\<forall>kv ts. general_cache db kv = Some ts \<longrightarrow> general_cache (database w1) kv = Some ts) \<and>
      dom (general_cache (database w1)) =
        dom (general_cache db) \<union> {''SPAM_ASSET_FALSE_POSITIVE''} \<times> set ASSETS_TO_WHITELIST \<and>
      database w2 = database w1"
  by (simp add: fix_detected_spam_tokens_sqlite protocol_cleared_idem cache_marked_idem
        dom_cache_marked)
     (simp add: cache_marked_def)

theorem fix_detected_spam_tokens_rerun_witness:
  "fst (fix_detected_spam_tokens sqlite_cursor example_world) = Inr () \<and>
   fst (fix_detected_spam_tokens sqlite_cursor
          (snd (fix_detected_spam_tokens sqlite_cursor example_world))) = Inr () \<and>
   general_cache (database (snd (fix_detected_spam_tokens sqlite_cursor example_world)))
     (''SPAM_ASSET_FALSE_POSITIVE'', ''eip155:1/erc20:0xA0b73E1Ff0B80914AB6fe0444E65848C4C34450b'')
     = Some 1700000000 \<and>
   database (snd (fix_detected_spam_tokens sqlite_cursor
                    (snd (fix_detected_spam_tokens sqlite_cursor example_world))))
     = database (snd (fix_detected_spam_tokens sqlite_cursor example_world))"
proof -
  have pre: "general_cache (database example_world)
      (''SPAM_ASSET_FALSE_POSITIVE'', ''eip155:1/erc20:0xA0b73E1Ff0B80914AB6fe0444E65848C4C34450b'')
      = Some 1700000000"
    by (simp add: example_world_def example_db_def)
  from fix_detected_spam_tokens_rerun [of example_world] pre show ?thesis
    unfolding Let_def by blast
qed

section \<open>Failure and the transaction\<close>

text \<open>
  C3: \<^verbatim>\<open>migrate_to_v8\<close> runs the whole step inside one \<^verbatim>\<open>write_ctx\<close>
  transaction. When the step raises at any point, the database after
  \<^verbatim>\<open>migrate_to_v8\<close> is the database before it: the update and any cache inserts
  made so far are rolled back. When the step returns, its mutations are kept.
\<close>

theorem migrate_to_v8_atomic:
  "migrate_to_v8_body connection w = write_ctx connection fix_detected_spam_tokens w \<and>
   (\<forall>e. fst (migrate_to_v8 connection w) = Inl e \<longrightarrow>
      database (snd (migrate_to_v8 connection w)) = database w) \<and>
   (fst (migrate_to_v8 connection w) = Inr () \<longrightarrow>
      database (snd (migrate_to_v8 connection w))
        = database (snd (fix_detected_spam_tokens (cursor connection) w)))"
  by (simp add: migrate_to_v8_fst migrate_to_v8_database)
     (simp add: migrate_to_v8_body_def)

theorem migrate_to_v8_atomic_witness:
  "fst (migrate_to_v8
          \<lparr>cursor = interrupted
             ''INSERT OR IGNORE INTO general_cache(key, value, last_queried_ts) VALUES (?, ?, ?)''
             2 (OperationalError ''disk I/O error'') sqlite_cursor\<rparr>
          example_world) = Inl (OperationalError ''disk I/O error'') \<and>
   evm_tokens (database (snd (fix_detected_spam_tokens
          (interrupted
             ''INSERT OR IGNORE INTO general_cache(key, value, last_queried_ts) VALUES (?, ?, ?)''
             2 (OperationalError ''disk I/O error'') sqlite_cursor)
          example_world)))
     ''eip155:1/erc20:0x2ecB13A8c458c379c4d9a7259e202De03c8F3D19''
     = Some \<lparr>protocol = None, other_columns = 18\<rparr> \<and>
   database (snd (migrate_to_v8
          \<lparr>cursor = interrupted
             ''INSERT OR IGNORE INTO general_cache(key, value, last_queried_ts) VALUES (?, ?, ?)''
             2 (OperationalError ''disk I/O error'') sqlite_cursor\<rparr>
          example_world)) = example_db"
proof -
  let ?c = "interrupted
             ''INSERT OR IGNORE INTO general_cache(key, value, last_queried_ts) VALUES (?, ?, ?)''
             2 (OperationalError ''disk I/O error'') sqlite_cursor
             :: ((int, string list) globaldb, store_error) DBCursor"
  have raised: "fst (migrate_to_v8 \<lparr>cursor = ?c\<rparr> example_world)
      = Inl (OperationalError ''disk I/O error'')"
    by (simp add: migrate_to_v8_fst fix_detected_spam_tokens_run
          fix_detected_spam_tokens_body_interrupted_insert)
  have changed: "evm_tokens (database (snd (fix_detected_spam_tokens ?c example_world)))
     ''eip155:1/erc20:0x2ecB13A8c458c379c4d9a7259e202De03c8F3D19''
     = Some \<lparr>protocol = None, other_columns = 18\<rparr>"
    by (simp add: fix_detected_spam_tokens_run fix_detected_spam_tokens_body_interrupted_insert
          protocol_cleared_def listed_first example_world_def example_db_def)
  have "database example_world = example_db"
    by (simp add: example_world_def)
  with raised changed migrate_to_v8_atomic [of "\<lparr>cursor = ?c\<rparr>" example_world]
  show ?thesis
    by simp
qed

text \<open>
  C4: identifiers of the list that have no \<^verbatim>\<open>evm_tokens\<close> row cause no update, no
  new row and no error: a row that was absent stays absent, exactly the listed rows
  that are present get \<^verbatim>\<open>protocol\<close> NULL, every other row is as before, and each
  listed identifier has its cache row afterwards whether or not it has a token row.
\<close>

theorem fix_detected_spam_tokens_absent_identifiers:
  "let db = database w;
       db' = database (snd (fix_detected_spam_tokens sqlite_cursor w))
   in fst (fix_detected_spam_tokens sqlite_cursor w) = Inr () \<and>
      (\<forall>ident. evm_tokens db ident = None \<longrightarrow> evm_tokens db' ident = None) \<and>
      (\<forall>ident row. evm_tokens db ident = Some row \<longrightarrow>
         evm_tokens db' ident =
           Some (if ident \<in> set ASSETS_TO_WHITELIST then row\<lparr>protocol := None\<rparr> else row)) \<and>
      (\<forall>asset_id \<in> set ASSETS_TO_WHITELIST.
         general_cache db' (''SPAM_ASSET_FALSE_POSITIVE'', asset_id) \<noteq> None)"
  by (simp add: fix_detected_spam_tokens_sqlite protocol_cleared_def cache_marked_def)

theorem fix_detected_spam_tokens_absent_identifiers_witness:
  "evm_tokens (database example_world)
     ''eip155:1/erc20:0xB70835D7822eBB9426B56543E391846C107bd32C'' = None \<and>
   fst (fix_detected_spam_tokens sqlite_cursor example_world) = Inr () \<and>
   evm_tokens (database (snd (fix_detected_spam_tokens sqlite_cursor example_world)))
     ''eip155:1/erc20:0xB70835D7822eBB9426B56543E391846C107bd32C'' = None \<and>
   general_cache (database (snd (fix_detected_spam_tokens sqlite_cursor example_world)))
     (''SPAM_ASSET_FALSE_POSITIVE'', ''eip155:1/erc20:0xB70835D7822eBB9426B56543E391846C107bd32C'')
     \<noteq> None \<and>
   evm_tokens (database (snd (fix_detected_spam_tokens sqlite_cursor example_world)))
     ''eip155:1/erc20:0x2ecB13A8c458c379c4d9a7259e202De03c8F3D19''
     = Some \<lparr>protocol = None, other_columns = 18\<rparr> \<and>
   evm_tokens (database (snd (fix_detected_spam_tokens sqlite_cursor example_world)))
     ''eip155:1/erc20:0xdAC17F958D2ee523a2206206994597C13D831ec7''
     = Some \<lparr>protocol = Some ''spam'', other_columns = 6\<rparr>"
proof -
  have absent: "evm_tokens (database example_world)
      ''eip155:1/erc20:0xB70835D7822eBB9426B56543E391846C107bd32C'' = None"
    by (simp add: example_world_def example_db_def)
  have present: "evm_tokens (database example_world)
      ''eip155:1/erc20:0x2ecB13A8c458c379c4d9a7259e202De03c8F3D19''
      = Some \<lparr>protocol = Some ''spam'', other_columns = 18\<rparr>"
    by (simp add: example_world_def example_db_def)
  have other: "evm_tokens (database example_world)
      ''eip155:1/erc20:0xdAC17F958D2ee523a2206206994597C13D831ec7''
      = Some \<lparr>protocol = Some ''spam'', other_columns = 6\<rparr>"
    by (simp add: example_world_def example_db_def)
  from fix_detected_spam_tokens_absent_identifiers [of example_world]
    absent present other listed_first listed_third unlisted_usdt
  show ?thesis
    by (simp add: Let_def)
qed

text \<open>
  C5: for every cursor, the outcome of \<^verbatim>\<open>fix_detected_spam_tokens\<close> and of
  \<^verbatim>\<open>migrate_to_v8\<close> is the outcome of the store: the exception of the first
  \<^verbatim>\<open>executemany\<close> call if it raises, else that of the second call if it raises,
  unchanged in both cases, and a plain return (no value) otherwise.
\<close>

theorem store_errors_propagate:
  "let r1 = executemany (cursor connection)
              ''UPDATE evm_tokens SET protocol=NULL WHERE identifier=?''
              (map (\<lambda>asset_id. [SqlText asset_id]) ASSETS_TO_WHITELIST) (database w);
       r2 = executemany (cursor connection)
              ''INSERT OR IGNORE INTO general_cache(key, value, last_queried_ts) VALUES (?, ?, ?)''
              (map (\<lambda>asset_id.
                      [SqlText ''SPAM_ASSET_FALSE_POSITIVE'', SqlText asset_id,
                       SqlInteger (clock w (ts_now_calls w))])
                 ASSETS_TO_WHITELIST) (snd r1);
       raised = (case fst r1 of Inl e \<Rightarrow> Inl e | Inr u \<Rightarrow> fst r2)
   in fst (fix_detected_spam_tokens (cursor connection) w) = raised \<and>
      fst (migrate_to_v8 connection w) = raised"
  by (simp add: migrate_to_v8_fst fix_detected_spam_tokens_run
        fix_detected_spam_tokens_body_run Let_def split: prod.splits sum.splits)

theorem store_errors_propagate_witness:
  "fst (fix_detected_spam_tokens
          (interrupted ''UPDATE evm_tokens SET protocol=NULL WHERE identifier=?''
             3 (OperationalError ''database is locked'') sqlite_cursor)
          example_world) = Inl (OperationalError ''database is locked'') \<and>
   fst (migrate_to_v8
          \<lparr>cursor = interrupted ''UPDATE evm_tokens SET protocol=NULL WHERE identifier=?''
             3 (OperationalError ''database is locked'') sqlite_cursor\<rparr>
          example_world) = Inl (OperationalError ''database is locked'')"
proof -
  let ?c = "interrupted ''UPDATE evm_tokens SET protocol=NULL WHERE identifier=?''
             3 (OperationalError ''database is locked'') sqlite_cursor
             :: ((int, string list) globaldb, store_error) DBCursor"
  have "fst (executemany ?c ''UPDATE evm_tokens SET protocol=NULL WHERE identifier=?''
              (map (\<lambda>asset_id. [SqlText asset_id]) ASSETS_TO_WHITELIST)
              (database example_world)) = Inl (OperationalError ''database is locked'')"
    by (simp add: interrupted_def sqlite_cursor_def take_map sqlite_update_all)
  with store_errors_propagate [of "\<lparr>cursor = ?c\<rparr>" example_world]
  show ?thesis
    by (simp add: Let_def)
qed

text \<open>
  C6: on the reference store the step leaves every other table alone; the
  \<^verbatim>\<open>evm_tokens\<close> rows that differ afterwards all have listed identifiers and are at
  most 41; no row appears or disappears and every row keeps its other columns; the
  \<^verbatim>\<open>general_cache\<close> rows that are new all are
  \<^verbatim>\<open>('SPAM_ASSET_FALSE_POSITIVE', listed identifier)\<close> rows and are at most 41; every
  cache row that was there is unchanged.
\<close>

theorem fix_detected_spam_tokens_frame:
  "let db = database w;
       db' = database (snd (fix_detected_spam_tokens sqlite_cursor w));
       updated = {ident. evm_tokens db' ident \<noteq> evm_tokens db ident};
       inserted = dom (general_cache db') - dom (general_cache db)
   in other_tables db' = other_tables db \<and>
      updated \<subseteq> set ASSETS_TO_WHITELIST \<and> card updated \<le> 41 \<and>
      (\<forall>ident. map_option other_columns (evm_tokens db' ident)
                 = map_option other_columns (evm_tokens db ident)) \<and>
      inserted \<subseteq> {''SPAM_ASSET_FALSE_POSITIVE''} \<times> set ASSETS_TO_WHITELIST \<and>
      card inserted \<le> 41 \<and>
      (\<forall>kv. general_cache db kv \<noteq> None \<longrightarrow> general_cache db' kv = general_cache db kv)"
proof -
  let ?db = "database w"
  let ?db' = "database (snd (fix_detected_spam_tokens sqlite_cursor w))"
  let ?updated = "{ident. evm_tokens ?db' ident \<noteq> evm_tokens ?db ident}"
  let ?inserted = "dom (general_cache ?db') - dom (general_cache ?db)"
  have tables: "other_tables ?db' = other_tables ?db"
    by (simp add: fix_detected_spam_tokens_sqlite)
  have upd: "?updated \<subseteq> set ASSETS_TO_WHITELIST"
    by (auto simp: fix_detected_spam_tokens_sqlite protocol_cleared_def)
  have upd_card: "card ?updated \<le> 41"
    using card_changed_rows [OF upd] by (simp add: ASSETS_TO_WHITELIST_length)
  have cols: "\<forall>ident. map_option other_columns (evm_tokens ?db' ident)
                 = map_option other_columns (evm_tokens ?db ident)"
    by (simp add: fix_detected_spam_tokens_sqlite protocol_cleared_def option.map_comp comp_def)
  have ins: "?inserted \<subseteq> {''SPAM_ASSET_FALSE_POSITIVE''} \<times> set ASSETS_TO_WHITELIST"
    by (auto simp: fix_detected_spam_tokens_sqlite dom_cache_marked)
  have ins_card: "card ?inserted \<le> 41"
    using card_new_markers [OF ins] by (simp add: ASSETS_TO_WHITELIST_length)
  have kept: "\<forall>kv. general_cache ?db kv \<noteq> None \<longrightarrow> general_cache ?db' kv = general_cache ?db kv"
    by (auto simp: fix_detected_spam_tokens_sqlite cache_marked_def)
  from tables upd upd_card cols ins ins_card kept show ?thesis
    unfolding Let_def by blast
qed

theorem fix_detected_spam_tokens_frame_witness:
  "other_tables (database (snd (fix_detected_spam_tokens sqlite_cursor example_world)))
     = [''assets'', ''settings''] \<and>
   evm_tokens (database (snd (fix_detected_spam_tokens sqlite_cursor example_world)))
     ''eip155:1/erc20:0xdAC17F958D2ee523a2206206994597C13D831ec7''
     = Some \<lparr>protocol = Some ''spam'', other_columns = 6\<rparr> \<and>
   map_option other_columns
     (evm_tokens (database (snd (fix_detected_spam_tokens sqlite_cursor example_world)))
        ''eip155:1/erc20:0x2ecB13A8c458c379c4d9a7259e202De03c8F3D19'') = Some 18 \<and>
   general_cache (database (snd (fix_detected_spam_tokens sqlite_cursor example_world)))
     (''SPAM_ASSET_FALSE_POSITIVE'', ''eip155:1/erc20:0xA0b73E1Ff0B80914AB6fe0444E65848C4C34450b'')
     = Some 1700000000"
proof -
  have tables: "other_tables (database example_world) = [''assets'', ''settings'']"
    by (simp add: example_world_def example_db_def)
  have present: "evm_tokens (database example_world)
      ''eip155:1/erc20:0x2ecB13A8c458c379c4d9a7259e202De03c8F3D19''
      = Some \<lparr>protocol = Some ''spam'', other_columns = 18\<rparr>"
    by (simp add: example_world_def example_db_def)
  have other: "evm_tokens (database example_world)
      ''eip155:1/erc20:0xdAC17F958D2ee523a2206206994597C13D831ec7''
      = Some \<lparr>protocol = Some ''spam'', other_columns = 6\<rparr>"
    by (simp add: example_world_def example_db_def)
  have marker: "general_cache (database example_world)
      (''SPAM_ASSET_FALSE_POSITIVE'', ''eip155:1/erc20:0xA0b73E1Ff0B80914AB6fe0444E65848C4C34450b'')
      = Some 1700000000"
    by (simp add: example_world_def example_db_def)
  note frame = fix_detected_spam_tokens_frame [of example_world, unfolded Let_def]
  let ?db' = "database (snd (fix_detected_spam_tokens sqlite_cursor example_world))"
  have t: "other_tables ?db' = other_tables (database example_world)"
    by (rule frame [THEN conjunct1])
  have u: "{ident. evm_tokens ?db' ident \<noteq> evm_tokens (database example_world) ident}
          \<subseteq> set ASSETS_TO_WHITELIST"
    by (rule frame [THEN conjunct2, THEN conjunct1])
  have usdt: "evm_tokens ?db' ''eip155:1/erc20:0xdAC17F958D2ee523a2206206994597C13D831ec7''
      = evm_tokens (database example_world)
          ''eip155:1/erc20:0xdAC17F958D2ee523a2206206994597C13D831ec7''"
  proof (rule ccontr)
    assume "\<not> ?thesis"
    then have "''eip155:1/erc20:0xdAC17F958D2ee523a2206206994597C13D831ec7''
        \<in> {ident. evm_tokens ?db' ident \<noteq> evm_tokens (database example_world) ident}"
      by (simp only: mem_Collect_eq not_False_eq_True)
    with u have "''eip155:1/erc20:0xdAC17F958D2ee523a2206206994597C13D831ec7''
        \<in> set ASSETS_TO_WHITELIST"
      by (rule subsetD)
    with unlisted_usdt show False
      by (rule notE)
  qed
  have c: "map_option other_columns
          (evm_tokens ?db' ''eip155:1/erc20:0x2ecB13A8c458c379c4d9a7259e202De03c8F3D19'')
        = map_option other_columns
          (evm_tokens (database example_world)
             ''eip155:1/erc20:0x2ecB13A8c458c379c4d9a7259e202De03c8F3D19'')"
    by (rule frame [THEN conjunct2, THEN conjunct2, THEN conjunct2, THEN conjunct1, THEN spec])
  have k: "general_cache ?db'
          (''SPAM_ASSET_FALSE_POSITIVE'',
           ''eip155:1/erc20:0xA0b73E1Ff0B80914AB6fe0444E65848C4C34450b'')
        = general_cache (database example_world)
          (''SPAM_ASSET_FALSE_POSITIVE'',
           ''eip155:1/erc20:0xA0b73E1Ff0B80914AB6fe0444E65848C4C34450b'')"
    by (rule frame [THEN conjunct2, THEN conjunct2, THEN conjunct2, THEN conjunct2,
          THEN conjunct2, THEN conjunct2, THEN spec, THEN mp])
       (simp add: marker)
  from t usdt c k show ?thesis
    by (simp add: tables present other marker)
qed

text \<open>
  C7: the decorator is transparent. For every cursor, connection and world the
  decorated \<^verbatim>\<open>fix_detected_spam_tokens\<close> and \<^verbatim>\<open>migrate_to_v8\<close> return or raise
  exactly what their undecorated bodies do, and reach the same world up to the debug
  log.
\<close>

theorem enter_exit_debug_log_transparent:
  "fst (fix_detected_spam_tokens c w) = fst (fix_detected_spam_tokens_body c w) \<and>
   (snd (fix_detected_spam_tokens c w))\<lparr>debug_log := l\<rparr>
     = (snd (fix_detected_spam_tokens_body c w))\<lparr>debug_log := l\<rparr> \<and>
   fst (migrate_to_v8 connection w) = fst (migrate_to_v8_body connection w) \<and>
   (snd (migrate_to_v8 connection w))\<lparr>debug_log := l\<rparr>
     = (snd (migrate_to_v8_body connection w))\<lparr>debug_log := l\<rparr>"
  by (simp add: fix_detected_spam_tokens_def enter_exit_debug_log_fst enter_exit_debug_log_snd
        fix_detected_spam_tokens_body_log migrate_to_v8_snd migrate_to_v8_fst
        migrate_to_v8_body_fst)

theorem enter_exit_debug_log_transparent_witness:
  "fst (fix_detected_spam_tokens sqlite_cursor example_world)
     = fst (fix_detected_spam_tokens_body sqlite_cursor example_world) \<and>
   (snd (fix_detected_spam_tokens sqlite_cursor example_world))\<lparr>debug_log := []\<rparr>
     = (snd (fix_detected_spam_tokens_body sqlite_cursor example_world))\<lparr>debug_log := []\<rparr> \<and>
   fst (migrate_to_v8 \<lparr>cursor = sqlite_cursor\<rparr> example_world)
     = fst (migrate_to_v8_body \<lparr>cursor = sqlite_cursor\<rparr> example_world) \<and>
   (snd (migrate_to_v8 \<lparr>cursor = sqlite_cursor\<rparr> example_world))\<lparr>debug_log := []\<rparr>
     = (snd (migrate_to_v8_body \<lparr>cursor = sqlite_cursor\<rparr> example_world))\<lparr>debug_log := []\<rparr>"
  by (rule enter_exit_debug_log_transparent)

text \<open>
  C9: the update does not look at the current classification: a listed row ends
  with \<^verbatim>\<open>protocol\<close> NULL whatever its \<^verbatim>\<open>protocol\<close> was before, spam or not.
\<close>

theorem fix_detected_spam_tokens_clears_any_protocol:
  "asset_id \<in> set ASSETS_TO_WHITELIST \<Longrightarrow>
   evm_tokens (database w) asset_id = Some \<lparr>protocol = p, other_columns = c\<rparr> \<Longrightarrow>
   evm_tokens (database (snd (fix_detected_spam_tokens sqlite_cursor w))) asset_id
     = Some \<lparr>protocol = None, other_columns = c\<rparr>"
  by (simp add: fix_detected_spam_tokens_sqlite protocol_cleared_def)

theorem fix_detected_spam_tokens_clears_any_protocol_witness:
  "''eip155:1/erc20:0xD6Ea40597Be05c201845c0bFd2e96A60bACde267'' \<in> set ASSETS_TO_WHITELIST \<and>
   evm_tokens (database example_world)
     ''eip155:1/erc20:0xD6Ea40597Be05c201845c0bFd2e96A60bACde267''
     = Some \<lparr>protocol = Some ''yearn_vaults_v2'', other_columns = 18\<rparr> \<and>
   evm_tokens (database (snd (fix_detected_spam_tokens sqlite_cursor example_world)))
     ''eip155:1/erc20:0xD6Ea40597Be05c201845c0bFd2e96A60bACde267''
     = Some \<lparr>protocol = None, other_columns = 18\<rparr>"
proof -
  have pre: "evm_tokens (database example_world)
      ''eip155:1/erc20:0xD6Ea40597Be05c201845c0bFd2e96A60bACde267''
      = Some \<lparr>protocol = Some ''yearn_vaults_v2'', other_columns = 18\<rparr>"
    by (simp add: example_world_def example_db_def)
  from fix_detected_spam_tokens_clears_any_protocol [OF listed_yv pre] listed_yv pre
  show ?thesis
    by simp
qed

text \<open>
  C10: \<^verbatim>\<open>ts_now\<close> is consulted exactly once per run, after the update and before
  the insert: for every cursor, no call has been made when the update raises, and
  when the update returns exactly one call has been made and the outcome and the
  database of the run are those of the one insert call, whose parameter tuples all
  carry that reading. On the reference store every cache row a run adds carries the
  reading of this one call.
\<close>

theorem ts_now_consulted_once:
  "let r1 = executemany c ''UPDATE evm_tokens SET protocol=NULL WHERE identifier=?''
              (map (\<lambda>asset_id. [SqlText asset_id]) ASSETS_TO_WHITELIST) (database w);
       current_ts = clock w (ts_now_calls w);
       w' = snd (fix_detected_spam_tokens c w);
       v' = snd (fix_detected_spam_tokens sqlite_cursor v)
   in (case fst r1 of
         Inl e \<Rightarrow> ts_now_calls w' = ts_now_calls w
       | Inr u \<Rightarrow>
           ts_now_calls w' = Suc (ts_now_calls w) \<and>
           (fst (fix_detected_spam_tokens c w), database w') =
             executemany c
               ''INSERT OR IGNORE INTO general_cache(key, value, last_queried_ts) VALUES (?, ?, ?)''
               (map (\<lambda>asset_id.
                       [SqlText ''SPAM_ASSET_FALSE_POSITIVE'', SqlText asset_id,
                        SqlInteger current_ts])
                  ASSETS_TO_WHITELIST) (snd r1)) \<and>
      ts_now_calls v' = Suc (ts_now_calls v) \<and>
      {ts. \<exists>kv. general_cache (database v) kv = None \<and>
                 general_cache (database v') kv = Some ts}
        \<subseteq> {clock v (ts_now_calls v)}"
  by (simp add: Let_def fix_detected_spam_tokens_sqlite)
     (auto simp: fix_detected_spam_tokens_run fix_detected_spam_tokens_body_run cache_marked_def
        split: prod.splits sum.splits if_splits)

theorem ts_now_consulted_once_witness:
  "ts_now_calls (snd (fix_detected_spam_tokens
      (interrupted ''UPDATE evm_tokens SET protocol=NULL WHERE identifier=?''
         3 (OperationalError ''database is locked'') sqlite_cursor)
      example_world)) = 0 \<and>
   ts_now_calls (snd (fix_detected_spam_tokens sqlite_cursor example_world)) = 1"
proof -
  let ?c = "interrupted ''UPDATE evm_tokens SET protocol=NULL WHERE identifier=?''
             3 (OperationalError ''database is locked'') sqlite_cursor
             :: ((int, string list) globaldb, store_error) DBCursor"
  have raised: "fst (executemany ?c ''UPDATE evm_tokens SET protocol=NULL WHERE identifier=?''
              (map (\<lambda>asset_id. [SqlText asset_id]) ASSETS_TO_WHITELIST)
              (database example_world)) = Inl (OperationalError ''database is locked'')"
    by (simp add: interrupted_def sqlite_cursor_def take_map sqlite_update_all)
  have calls: "ts_now_calls example_world = 0"
    by (simp add: example_world_def)
  from ts_now_consulted_once [of ?c example_world example_world] raised calls
  show ?thesis
    by (simp add: Let_def)
qed

end
